theory Spec2Isabelle
  imports Complex_Main
begin

section \<open>Values of the JavaScript runtime\<close>

text \<open>
  The controllers handle JSON: request bodies, the rows the store returns and the stored
  \<open>push_subscriptions\<close>. A JavaScript value is a \<open>json option\<close>, where \<open>None\<close> is
  \<open>undefined\<close>. Numbers are only tested for zero and compared for equality by the code
  modelled here, so they are rationals.
\<close>

datatype json =
    JNull
  | JBool bool
  | JNum rat
  | JStr string
  | JArr "json list"
  | JObj "(string \<times> json) list"

type_synonym jsval = "json option"

text \<open>What \<open>if (v)\<close> and \<open>!v\<close> test.\<close>

fun truthy :: "jsval \<Rightarrow> bool" where
  "truthy None = False"
| "truthy (Some JNull) = False"
| "truthy (Some (JBool b)) = b"
| "truthy (Some (JNum n)) = (n \<noteq> 0)"
| "truthy (Some (JStr s)) = (s \<noteq> [])"
| "truthy (Some (JArr xs)) = True"
| "truthy (Some (JObj kv)) = True"

text \<open>
  \<open>a === b\<close>. Primitives compare by value. Arrays and objects compare by identity, and
  the two sides compared in this code never share one (one side is read from the store, the
  other from the request), so they are never strictly equal.
\<close>

fun strict_eq :: "jsval \<Rightarrow> jsval \<Rightarrow> bool" where
  "strict_eq None None = True"
| "strict_eq (Some JNull) (Some JNull) = True"
| "strict_eq (Some (JBool a)) (Some (JBool b)) = (a = b)"
| "strict_eq (Some (JNum a)) (Some (JNum b)) = (a = b)"
| "strict_eq (Some (JStr a)) (Some (JStr b)) = (a = b)"
| "strict_eq a b = False"

datatype exn =
    TypeError
  | DbError string
  | WebPushError "nat option"

text \<open>\<open>err.statusCode\<close>: only the transport's errors carry one.\<close>

fun statusCode :: "exn \<Rightarrow> nat option" where
  "statusCode (WebPushError c) = c"
| "statusCode e = None"

text \<open>
  \<open>s.endpoint\<close>: reading a property of \<open>null\<close> throws; a string, number, boolean or
  array has no such property; an object has the value of its last binding of the key.
\<close>

fun endpoint :: "json \<Rightarrow> exn + jsval" where
  "endpoint JNull = Inl TypeError"
| "endpoint (JObj kv) = Inr (map_of (rev kv) ''endpoint'')"
| "endpoint v = Inr None"

text \<open>
  The builtins of the runtime that the code calls are parameters of the model:
  \<open>JSON.parse\<close> (\<open>None\<close> where it throws), \<open>JSON.stringify\<close>, \<open>String(v)\<close>,
  \<open>String.prototype.trim\<close>, the split at \<open>/\r?\n|,/\<close>, and the text of the login
  notification (it formats the e-mail address and the local time).
\<close>

record runtime =
  json_parse :: "string \<Rightarrow> json option"
  json_stringify :: "json \<Rightarrow> string"
  to_string :: "json \<Rightarrow> string"
  trim :: "string \<Rightarrow> string"
  split_lines_commas :: "string \<Rightarrow> string list"
  login_message :: "jsval \<Rightarrow> int \<Rightarrow> string"

section \<open>The employee store\<close>

text \<open>
  A row of the \<open>employees\<close> table. The two timestamp columns are kept as instants, in
  milliseconds since the epoch (\<open>None\<close> is NULL): the ISO-8601 text that carries them
  between the program and the store (\<open>toISOString\<close>, \<open>new Date(text)\<close>) denotes the
  instant exactly. \<open>role_type\<close> is a text column that may be NULL. Every other column
  (\<open>empid\<close>, \<open>email\<close>, \<open>password\<close>, \<open>push_subscriptions\<close>, \<open>stars\<close>, \<open>availability\<close>,
  ...) is a JSON value under its name.
\<close>

record row =
  cols :: "string \<rightharpoonup> json"
  role_type :: "string option"
  last_login :: "int option"
  updated_at :: "int option"

text \<open>
  The store client is not part of the repository. Its filter \<open>neq\<close> is SQL's \<open><>\<close>,
  which drops a row whose column is NULL; the model leaves that choice open in
  \<open>neq_keeps_null\<close>, so that nothing proved depends on it.
\<close>

record store =
  rows :: "row list"
  neq_keeps_null :: bool

text \<open>
  What one call of a handler finds around it: the clock (milliseconds since the epoch), the
  time zone of the server, and whether the store answers its reads and its writes with an
  error. The time zone is ECMAScript's \<open>LocalTZA(t, isUTC)\<close>: the offset of local time from
  UTC in milliseconds, at the UTC instant \<open>t\<close> when \<open>isUTC\<close> holds and at the local time
  \<open>t\<close> otherwise.
\<close>

record env =
  clock :: int
  local_tza :: "int \<Rightarrow> bool \<Rightarrow> int"
  select_fault :: "string option"
  update_fault :: "string option"

text \<open>\<open>.eq(column, v)\<close>: no row equals \<open>null\<close> or \<open>undefined\<close>.\<close>

definition eq_match :: "string \<Rightarrow> jsval \<Rightarrow> row \<Rightarrow> bool" where
  "eq_match c v r = (v \<noteq> None \<and> v \<noteq> Some JNull \<and> cols r c = v)"

definition neq_role_match :: "store \<Rightarrow> string \<Rightarrow> row \<Rightarrow> bool" where
  "neq_role_match st v r = (case role_type r of None \<Rightarrow> neq_keeps_null st | Some x \<Rightarrow> x \<noteq> v)"

text \<open>\<open>supabase.from('employees').select(...)\<close> with one filter, or none.\<close>

definition db_select_eq :: "env \<Rightarrow> store \<Rightarrow> string \<Rightarrow> jsval \<Rightarrow> exn + row list" where
  "db_select_eq e st c v =
     (case select_fault e of
        Some msg \<Rightarrow> Inl (DbError msg)
      | None \<Rightarrow> Inr (filter (eq_match c v) (rows st)))"

definition db_select_role_neq :: "env \<Rightarrow> store \<Rightarrow> string \<Rightarrow> exn + row list" where
  "db_select_role_neq e st v =
     (case select_fault e of
        Some msg \<Rightarrow> Inl (DbError msg)
      | None \<Rightarrow> Inr (filter (neq_role_match st v) (rows st)))"

definition db_select_all :: "env \<Rightarrow> store \<Rightarrow> exn + row list" where
  "db_select_all e st =
     (case select_fault e of
        Some msg \<Rightarrow> Inl (DbError msg)
      | None \<Rightarrow> Inr (rows st))"

text \<open>\<open>.single()\<close>: an error unless exactly one row matched.\<close>

fun single :: "exn + row list \<Rightarrow> exn + row" where
  "single (Inl e) = Inl e"
| "single (Inr [r]) = Inr r"
| "single (Inr rs) = Inl (DbError ''PGRST116'')"

text \<open>
  \<open>.update(patch).eq(column, v)\<close>: the patch is applied to every matching row; on an
  error nothing is written.
\<close>

definition db_update :: "env \<Rightarrow> store \<Rightarrow> (row \<Rightarrow> row) \<Rightarrow> string \<Rightarrow> jsval \<Rightarrow> exn option \<times> store" where
  "db_update e st patch c v =
     (case update_fault e of
        Some msg \<Rightarrow> (Some (DbError msg), st)
      | None \<Rightarrow> (None, st\<lparr>rows := map (\<lambda>r. if eq_match c v r then patch r else r) (rows st)\<rparr>))"

section \<open>What a handler does\<close>

record payload =
  title :: string
  message :: string
  url :: string
  icon :: "string option"
  image_field :: "string option"

datatype log_line =
    SubscriptionExpired jsval
  | PushError exn
  | NotificationSent jsval
  | NotificationFailed jsval exn
  | BroadcastPushError exn
  | BroadcastSent nat
  | BroadcastError exn
  | RunningInactivityCheck
  | InactivityCheckComplete nat
  | SchedulerError exn
  | SubscriptionError exn
  | LoginError exn
  | StarUpdateError exn
  | UpdateEmployeeError exn
  | StarsError exn
  | EmptyUpdatePayload

text \<open>
  The trace of a call, in the order the code issues it: a transport send (with the row the
  subscription was read from), a console line, a statement sent to the store, and a call of
  \<open>sendNotificationToUser\<close> by the scheduler for a fetched row. The sends of one fan-out
  run concurrently; the trace lists them in the order \<open>map\<close> starts them.
\<close>

datatype event =
    Send row json payload
  | Log log_line
  | DbSelect
  | DbUpdate
  | Notify row payload

text \<open>A settled promise; the values promises resolve to are never read by this code.\<close>

datatype settled = Fulfilled | Rejected exn

fun promise_all :: "settled list \<Rightarrow> settled" where
  "promise_all [] = Fulfilled"
| "promise_all (Fulfilled # ps) = promise_all ps"
| "promise_all (Rejected e # ps) = Rejected e"

text \<open>\<open>try { ... } catch (err) { console.error(..., err) }\<close> around an awaited body.\<close>

definition catch_log :: "(exn \<Rightarrow> log_line) \<Rightarrow> event list \<times> settled \<Rightarrow> event list \<times> settled" where
  "catch_log f r =
     (case r of
        (ev, Rejected e) \<Rightarrow> (ev @ [Log (f e)], Fulfilled)
      | (ev, Fulfilled) \<Rightarrow> (ev, Fulfilled))"

text \<open>
  Modelled from the spec: the push transport (the \<open>web-push\<close> library, not part of the
  repository). \<open>send(subscription, payload)\<close> never throws synchronously; its promise
  is fulfilled on delivery and rejected with an error otherwise.
\<close>

type_synonym transport = "json \<Rightarrow> payload \<Rightarrow> settled"

section \<open>notificationController.js\<close>

definition default_icons :: "payload \<Rightarrow> payload" where
  "default_icons p =
     (let p1 = (if icon p = None \<or> icon p = Some [] then p\<lparr>icon := Some ''/Logo/MainLogo.png''\<rparr> else p)
      in if image_field p1 = None \<or> image_field p1 = Some []
         then p1\<lparr>image_field := Some ''/Logo/MainLogo.png''\<rparr> else p1)"

text \<open>\<open>subscriptions.some(s => s.endpoint === subscription.endpoint)\<close>\<close>

fun some_endpoint :: "json \<Rightarrow> json list \<Rightarrow> exn + bool" where
  "some_endpoint sub [] = Inr False"
| "some_endpoint sub (s # ss) =
     (case endpoint s of
        Inl e \<Rightarrow> Inl e
      | Inr ep' \<Rightarrow>
          (case endpoint sub of
             Inl e \<Rightarrow> Inl e
           | Inr ep \<Rightarrow> if strict_eq ep' ep then Inr True else some_endpoint sub ss))"

text \<open>
  \<open>subscriptions.some\<close> on whatever \<open>subscriptions\<close> holds: a value that is not an array
  has no method \<open>some\<close>, and calling it throws.
\<close>

fun subscriptions_some :: "json \<Rightarrow> json \<Rightarrow> exn + bool" where
  "subscriptions_some sub (JArr ss) = some_endpoint sub ss"
| "subscriptions_some sub v = Inl TypeError"

text \<open>
  What a handler answers: the status and the text of \<open>message\<close> or \<open>error\<close> (\<open>success\<close>
  where the body has neither); the data a body carries along is left out.
\<close>

datatype response = Response nat string

record subscribe_request =
  subscription :: jsval
  empid :: jsval

text \<open>
  The list \<open>subscribe\<close> starts from: \<open>[]\<close>, the parsed text (whatever it parses to), or
  the stored array.
\<close>

definition subscribe_read :: "runtime \<Rightarrow> row \<Rightarrow> json" where
  "subscribe_read rt user =
     (if truthy (cols user ''push_subscriptions'') then
        (case cols user ''push_subscriptions'' of
           Some (JStr s) \<Rightarrow> (case json_parse rt s of Some v \<Rightarrow> v | None \<Rightarrow> JArr [])
         | Some (JArr ss) \<Rightarrow> JArr ss
         | _ \<Rightarrow> JArr [])
      else JArr [])"

definition subscribe_try :: "runtime \<Rightarrow> env \<Rightarrow> store \<Rightarrow> json \<Rightarrow> jsval \<Rightarrow> (exn + response) \<times> store \<times> event list" where
  "subscribe_try rt e st sub eid =
     (case single (db_select_eq e st ''empid'' eid) of
        Inl fetchError \<Rightarrow> (Inl fetchError, st, [DbSelect])
      | Inr user \<Rightarrow>
          (let subscriptions = subscribe_read rt user in
           case subscriptions_some sub subscriptions of
             Inl err \<Rightarrow> (Inl err, st, [DbSelect])
           | Inr True \<Rightarrow> (Inr (Response 201 ''Subscribed successfully''), st, [DbSelect])
           | Inr False \<Rightarrow>
               (case subscriptions of
                  JArr ss \<Rightarrow>
                    (case db_update e st
                            (\<lambda>r. r\<lparr>cols := (cols r)(''push_subscriptions'' \<mapsto> JArr (ss @ [sub]))\<rparr>)
                            ''empid'' eid of
                       (Some updateError, st') \<Rightarrow> (Inl updateError, st', [DbSelect, DbUpdate])
                     | (None, st') \<Rightarrow>
                         (Inr (Response 201 ''Subscribed successfully''), st', [DbSelect, DbUpdate]))
                | _ \<Rightarrow> (Inl TypeError, st, [DbSelect]))))"

definition subscribe :: "runtime \<Rightarrow> env \<Rightarrow> store \<Rightarrow> subscribe_request \<Rightarrow> response \<times> store \<times> event list" where
  "subscribe rt e st req =
     (case subscription req of
        None \<Rightarrow> (Response 400 ''Subscription and empid required'', st, [])
      | Some sub \<Rightarrow>
          if \<not> truthy (Some sub) \<or> \<not> truthy (empid req)
          then (Response 400 ''Subscription and empid required'', st, [])
          else
            (case subscribe_try rt e st sub (empid req) of
               (Inl err, st', ev) \<Rightarrow>
                 (Response 500 ''Failed to save subscription'', st', ev @ [Log (SubscriptionError err)])
             | (Inr res, st', ev) \<Rightarrow> (res, st', ev)))"

text \<open>One send of the fan-out of \<open>sendNotificationToUser\<close>, with its \<open>.catch\<close>.\<close>

definition send_to_subscription :: "transport \<Rightarrow> jsval \<Rightarrow> row \<Rightarrow> payload \<Rightarrow> json \<Rightarrow> event list \<times> settled" where
  "send_to_subscription tr eid user p sub =
     (case tr sub p of
        Fulfilled \<Rightarrow> ([Send user sub p], Fulfilled)
      | Rejected err \<Rightarrow>
          ([Send user sub p,
            Log (if statusCode err = Some 410 \<or> statusCode err = Some 404
                 then SubscriptionExpired eid else PushError err)],
           Fulfilled))"

definition sendNotificationToUser_try :: "transport \<Rightarrow> runtime \<Rightarrow> env \<Rightarrow> store \<Rightarrow> jsval \<Rightarrow> payload \<Rightarrow> event list \<times> settled" where
  "sendNotificationToUser_try tr rt e st eid payload0 =
     (let p = default_icons payload0 in
      case single (db_select_eq e st ''empid'' eid) of
        Inl error \<Rightarrow> ([DbSelect], Fulfilled)
      | Inr user \<Rightarrow>
          if \<not> truthy (cols user ''push_subscriptions'') then ([DbSelect], Fulfilled)
          else
            (let subscriptions =
                   (case cols user ''push_subscriptions'' of
                      Some (JStr s) \<Rightarrow> (case json_parse rt s of Some v \<Rightarrow> v | None \<Rightarrow> JArr [])
                    | Some v \<Rightarrow> v
                    | None \<Rightarrow> JArr [])
             in case subscriptions of
                  JArr subs \<Rightarrow>
                    if subs = [] then ([DbSelect], Fulfilled)
                    else
                      (let notifications = map (send_to_subscription tr eid user p) subs in
                       case promise_all (map snd notifications) of
                         Rejected err \<Rightarrow> (DbSelect # concat (map fst notifications), Rejected err)
                       | Fulfilled \<Rightarrow>
                           (DbSelect # concat (map fst notifications) @ [Log (NotificationSent eid)],
                            Fulfilled))
                | _ \<Rightarrow> ([DbSelect], Fulfilled)))"

definition sendNotificationToUser :: "transport \<Rightarrow> runtime \<Rightarrow> env \<Rightarrow> store \<Rightarrow> jsval \<Rightarrow> payload \<Rightarrow> event list \<times> settled" where
  "sendNotificationToUser tr rt e st eid payload0 =
     catch_log (NotificationFailed eid) (sendNotificationToUser_try tr rt e st eid payload0)"

text \<open>One send of the fan-out of \<open>broadcastNotification\<close>, with its \<open>.catch\<close>.\<close>

definition broadcast_to_subscription :: "transport \<Rightarrow> row \<Rightarrow> payload \<Rightarrow> json \<Rightarrow> event list \<times> settled" where
  "broadcast_to_subscription tr emp p sub =
     (case tr sub p of
        Fulfilled \<Rightarrow> ([Send emp sub p], Fulfilled)
      | Rejected err \<Rightarrow> ([Send emp sub p, Log (BroadcastPushError err)], Fulfilled))"

definition broadcast_subs :: "transport \<Rightarrow> row \<Rightarrow> payload \<Rightarrow> json \<Rightarrow> event list \<times> settled" where
  "broadcast_subs tr emp p subs =
     (case subs of
        JArr ss \<Rightarrow>
          (let sent = map (broadcast_to_subscription tr emp p) ss
           in (concat (map fst sent), promise_all (map snd sent)))
      | _ \<Rightarrow> ([], Fulfilled))"

text \<open>The callback of \<open>employees.map\<close> in \<open>broadcastNotification\<close>.\<close>

definition broadcast_to_employee :: "transport \<Rightarrow> runtime \<Rightarrow> payload \<Rightarrow> row \<Rightarrow> event list \<times> settled" where
  "broadcast_to_employee tr rt p emp =
     (if \<not> truthy (cols emp ''push_subscriptions'') then ([], Fulfilled)
      else
        (case cols emp ''push_subscriptions'' of
           Some (JStr s) \<Rightarrow>
             (case json_parse rt s of
                None \<Rightarrow> ([], Fulfilled)
              | Some subs \<Rightarrow> broadcast_subs tr emp p subs)
         | Some subs \<Rightarrow> broadcast_subs tr emp p subs
         | None \<Rightarrow> ([], Fulfilled)))"

text \<open>
  \<open>roleType\<close> is a string; an absent argument behaves as the empty one. Whatever the
  argument says, the filter the code adds is \<open>neq('role_type', 'Manager')\<close>.
\<close>

definition broadcastNotification_try :: "transport \<Rightarrow> runtime \<Rightarrow> env \<Rightarrow> store \<Rightarrow> string \<Rightarrow> payload \<Rightarrow> event list \<times> settled" where
  "broadcastNotification_try tr rt e st roleType payload0 =
     (let p = default_icons payload0 in
      case (if roleType \<noteq> [] then db_select_role_neq e st ''Manager'' else db_select_all e st) of
        Inl error \<Rightarrow> ([DbSelect], Rejected error)
      | Inr employees \<Rightarrow>
          (let promises = map (broadcast_to_employee tr rt p) employees in
           case promise_all (map snd promises) of
             Rejected err \<Rightarrow> (DbSelect # concat (map fst promises), Rejected err)
           | Fulfilled \<Rightarrow>
               (DbSelect # concat (map fst promises) @ [Log (BroadcastSent (length employees))],
                Fulfilled)))"

definition broadcastNotification :: "transport \<Rightarrow> runtime \<Rightarrow> env \<Rightarrow> store \<Rightarrow> string \<Rightarrow> payload \<Rightarrow> event list \<times> settled" where
  "broadcastNotification tr rt e st roleType payload0 =
     catch_log BroadcastError (broadcastNotification_try tr rt e st roleType payload0)"

section \<open>scheduler.js\<close>

definition reminder :: payload where
  "reminder =
     \<lparr>title = ''Update Your Details'',
      message = ''It's been 15 days! Please update your Skills and Availability in the Details screen.'',
      url = ''/details'',
      icon = Some ''/Logo/taking-off.png'',
      image_field = Some ''/Logo/MainLogo.png''\<rparr>"

text \<open>
  \<open>new Date()\<close> is the clock. \<open>setDate(getDate() - 15)\<close> works on local time: it takes
  the local time of the instant, moves its day number back by fifteen and keeps the time
  within the day (\<open>MakeDay\<close> of the year, the month and the date minus fifteen is the day
  number minus fifteen), and reads the result as a local time again. Where the offset of the
  zone is the same at both ends that is fifteen times 86,400,000 ms before the clock; across
  a change of the clocks it is an hour more or less. The cutoff then goes through
  \<open>toISOString\<close> and \<open>new Date\<close>, which give the instant back.
\<close>

definition fifteenDaysAgo :: "env \<Rightarrow> int" where
  "fifteenDaysAgo e =
     (let t = clock e + local_tza e (clock e) True;
          newDate = t - 15 * (24 * 60 * 60 * 1000)
      in newDate - local_tza e newDate False)"

definition lastLogin :: "row \<Rightarrow> int" where
  "lastLogin emp = (case last_login emp of Some t \<Rightarrow> t | None \<Rightarrow> 0)"

definition lastUpdate :: "row \<Rightarrow> int" where
  "lastUpdate emp = (case updated_at emp of Some t \<Rightarrow> t | None \<Rightarrow> 0)"

text \<open>
  The \<open>for\<close> loop over the fetched employees, with its counter. The call of
  \<open>sendNotificationToUser\<close> is not awaited; its trace is put where the call is made.
\<close>

fun inactivity_loop :: "transport \<Rightarrow> runtime \<Rightarrow> env \<Rightarrow> store \<Rightarrow> int \<Rightarrow> row list \<Rightarrow> nat \<Rightarrow> event list \<times> nat" where
  "inactivity_loop tr rt e st cutoffDate [] count = ([], count)"
| "inactivity_loop tr rt e st cutoffDate (emp # emps) count =
     (if lastLogin emp < cutoffDate \<and> lastUpdate emp < cutoffDate
      then
        (let sent = fst (sendNotificationToUser tr rt e st (cols emp ''empid'') reminder);
             rest = inactivity_loop tr rt e st cutoffDate emps (count + 1)
         in (Notify emp reminder # sent @ fst rest, snd rest))
      else inactivity_loop tr rt e st cutoffDate emps count)"

definition inactivity_check_try :: "transport \<Rightarrow> runtime \<Rightarrow> env \<Rightarrow> store \<Rightarrow> event list \<times> settled" where
  "inactivity_check_try tr rt e st =
     (let cutoffDate = fifteenDaysAgo e in
      case db_select_role_neq e st ''Manager'' of
        Inl error \<Rightarrow> ([Log RunningInactivityCheck, DbSelect], Rejected error)
      | Inr employees \<Rightarrow>
          (let run = inactivity_loop tr rt e st cutoffDate employees 0
           in ([Log RunningInactivityCheck, DbSelect] @ fst run @ [Log (InactivityCheckComplete (snd run))],
               Fulfilled)))"

text \<open>The callback that \<open>startScheduler\<close> hands to \<open>cron.schedule\<close>.\<close>

definition inactivity_check :: "transport \<Rightarrow> runtime \<Rightarrow> env \<Rightarrow> store \<Rightarrow> event list \<times> settled" where
  "inactivity_check tr rt e st = catch_log SchedulerError (inactivity_check_try tr rt e st)"

section \<open>employeeController.js\<close>

definition normalizeListForStore :: "runtime \<Rightarrow> jsval \<Rightarrow> jsval" where
  "normalizeListForStore rt val =
     (case val of
        None \<Rightarrow> None
      | Some JNull \<Rightarrow> None
      | Some (JArr xs) \<Rightarrow> Some (JStr (json_stringify rt (JArr (filter (\<lambda>x. truthy (Some x)) xs))))
      | Some (JStr v) \<Rightarrow>
          (let s = trim rt v in
           if s = [] then Some (JStr (json_stringify rt (JArr [])))
           else
             (case json_parse rt s of
                Some (JArr parsed) \<Rightarrow>
                  Some (JStr (json_stringify rt (JArr (filter (\<lambda>x. truthy (Some x)) parsed))))
              | _ \<Rightarrow>
                  Some (JStr (json_stringify rt
                    (JArr (map JStr (filter (\<lambda>x. x \<noteq> []) (map (trim rt) (split_lines_commas rt s)))))))))
      | Some v \<Rightarrow> Some (JStr (json_stringify rt (JArr [JStr (to_string rt v)]))))"

definition profileFields :: "string list" where
  "profileFields = [''empid'', ''name'', ''email'', ''role'', ''cluster'', ''cluster2'']"

definition detailScalarFields :: "string list" where
  "detailScalarFields =
     [''current_project'', ''availability'', ''hours_available'', ''from_date'', ''to_date'', ''stars'']"

text \<open>
  The request body is a JSON object: a key it has is never \<open>undefined\<close>. The two
  \<open>forEach\<close> loops copy the listed keys the body has.
\<close>

definition copy_fields :: "string list \<Rightarrow> (string \<rightharpoonup> json) \<Rightarrow> (string \<rightharpoonup> json) \<Rightarrow> (string \<rightharpoonup> json)" where
  "copy_fields fs body updatePayload =
     foldl (\<lambda>p f. case body f of Some v \<Rightarrow> p(f \<mapsto> v) | None \<Rightarrow> p) updatePayload fs"

definition set_list_field :: "runtime \<Rightarrow> (string \<rightharpoonup> json) \<Rightarrow> string \<Rightarrow> (string \<rightharpoonup> json) \<Rightarrow> (string \<rightharpoonup> json)" where
  "set_list_field rt body f updatePayload =
     (case body f of
        None \<Rightarrow> updatePayload
      | Some v \<Rightarrow>
          (case normalizeListForStore rt (Some v) of
             Some val \<Rightarrow> updatePayload(f \<mapsto> val)
           | None \<Rightarrow> updatePayload))"

text \<open>The update payload as it stands before the checks on availability.\<close>

definition build_updatePayload :: "runtime \<Rightarrow> (string \<rightharpoonup> json) \<Rightarrow> (string \<rightharpoonup> json)" where
  "build_updatePayload rt body =
     (let p1 = copy_fields profileFields body Map.empty;
          p2 = set_list_field rt body ''current_skills'' p1;
          p3 = set_list_field rt body ''interests'' p2;
          p4 = set_list_field rt body ''previous_projects'' p3;
          p5 = copy_fields detailScalarFields body p4;
          p6 = (if truthy (body ''noCurrentProject'') then p5(''current_project'' \<mapsto> JStr []) else p5)
      in (case body ''stars'' of Some v \<Rightarrow> p6(''stars'' \<mapsto> v) | None \<Rightarrow> p6))"

definition or_existing :: "(string \<rightharpoonup> json) \<Rightarrow> row \<Rightarrow> string \<Rightarrow> jsval" where
  "or_existing updatePayload existing k =
     (case updatePayload k of Some v \<Rightarrow> Some v | None \<Rightarrow> cols existing k)"

text \<open>
  The validation around \<open>Partially Available\<close>: the payload to write, or \<open>None\<close> where
  the handler answers 400.
\<close>

definition check_availability :: "(string \<rightharpoonup> json) \<Rightarrow> row \<Rightarrow> (string \<rightharpoonup> json) option" where
  "check_availability updatePayload existing =
     (let isAvailabilityUpdate =
            (\<exists>k \<in> set [''availability'', ''hours_available'', ''from_date'', ''to_date''].
               updatePayload k \<noteq> None)
      in if isAvailabilityUpdate then
           (let finalAvailability = or_existing updatePayload existing ''availability'';
                hoursProvided = or_existing updatePayload existing ''hours_available'';
                fromProvided = or_existing updatePayload existing ''from_date'';
                toProvided = or_existing updatePayload existing ''to_date''
            in if \<not> strict_eq finalAvailability (Some (JStr ''Partially Available'')) then
                 (if truthy hoursProvided \<or> truthy fromProvided \<or> truthy toProvided
                  then Some (updatePayload(''hours_available'' \<mapsto> JNull, ''from_date'' \<mapsto> JNull,
                                           ''to_date'' \<mapsto> JNull))
                  else Some updatePayload)
               else
                 (if \<not> truthy hoursProvided \<or> \<not> truthy fromProvided \<or> \<not> truthy toProvided
                  then None else Some updatePayload))
         else Some updatePayload)"

definition istOffset :: int where
  "istOffset = 19800000"

text \<open>
  \<open>updateEmployee\<close>. \<open>empid\<close> is the route parameter, a string. \<open>5.5 * 60 * 60 * 1000\<close>
  is 19,800,000 exactly.
\<close>

definition updateEmployee :: "runtime \<Rightarrow> env \<Rightarrow> store \<Rightarrow> string \<Rightarrow> (string \<rightharpoonup> json) \<Rightarrow> response \<times> store \<times> event list" where
  "updateEmployee rt e st eid body =
     (case db_select_eq e st ''empid'' (Some (JStr eid)) of
        Inl findError \<Rightarrow>
          (Response 500 ''Supabase update error'', st, [DbSelect, Log (UpdateEmployeeError findError)])
      | Inr [] \<Rightarrow> (Response 404 ''Employee not found'', st, [DbSelect])
      | Inr (existing # others) \<Rightarrow>
          (case body ''stars'' of
             Some stars \<Rightarrow>
               (case db_update e st (\<lambda>r. r\<lparr>cols := (cols r)(''stars'' \<mapsto> stars)\<rparr>)
                       ''empid'' (Some (JStr eid)) of
                  (Some (DbError msg), st') \<Rightarrow>
                    (Response 500 msg, st', [DbSelect, DbUpdate, Log (StarUpdateError (DbError msg))])
                | (Some starError, st') \<Rightarrow>
                    (Response 500 [], st', [DbSelect, DbUpdate, Log (StarUpdateError starError)])
                | (None, st') \<Rightarrow> (Response 200 ''Star updated directly'', st', [DbSelect, DbUpdate]))
           | None \<Rightarrow>
               (let updatePayload = build_updatePayload rt body;
                    warn = (if dom updatePayload = {} then [Log EmptyUpdatePayload] else [])
                in case check_availability updatePayload existing of
                     None \<Rightarrow>
                       (Response 400 ''Hours, from date, and to date are required for \"Partially Available\"'',
                        st, DbSelect # warn)
                   | Some updatePayload' \<Rightarrow>
                       (case db_update e st
                               (\<lambda>r. r\<lparr>cols := cols r ++ updatePayload',
                                       updated_at := Some (clock e + istOffset)\<rparr>)
                               ''empid'' (Some (JStr eid)) of
                          (Some updateError, st') \<Rightarrow>
                            (Response 500 ''Supabase update error'', st',
                             DbSelect # warn @ [DbUpdate, Log (UpdateEmployeeError updateError)])
                        | (None, st') \<Rightarrow>
                            (Response 200 ''Employee updated'', st', DbSelect # warn @ [DbUpdate])))))"

definition updateEmployeeStars :: "env \<Rightarrow> store \<Rightarrow> string \<Rightarrow> (string \<rightharpoonup> json) \<Rightarrow> response \<times> store \<times> event list" where
  "updateEmployeeStars e st eid body =
     (case body ''stars'' of
        None \<Rightarrow> (Response 400 ''Stars value is required'', st, [])
      | Some stars \<Rightarrow>
          (case db_update e st (\<lambda>r. r\<lparr>cols := (cols r)(''stars'' \<mapsto> stars)\<rparr>)
                  ''empid'' (Some (JStr eid)) of
             (Some error, st') \<Rightarrow>
               (Response 500 ''Failed to update stars'', st', [DbUpdate, Log (StarsError error)])
           | (None, st') \<Rightarrow> (Response 200 ''Stars updated successfully'', st', [DbUpdate])))"

section \<open>authController.js\<close>

text \<open>
  \<open>loginUser\<close>. The notification is not awaited and cannot reject; the result of the
  write of \<open>last_login\<close> is not looked at.
\<close>

definition loginUser :: "transport \<Rightarrow> runtime \<Rightarrow> env \<Rightarrow> store \<Rightarrow> jsval \<Rightarrow> jsval \<Rightarrow> response \<times> store \<times> event list" where
  "loginUser tr rt e st email password =
     (if \<not> truthy email \<or> \<not> truthy password
      then (Response 400 ''Email and password required'', st, [])
      else
        (case db_select_eq e st ''email'' email of
           Inl error \<Rightarrow> (Response 500 ''Supabase login error'', st, [DbSelect, Log (LoginError error)])
         | Inr [] \<Rightarrow> (Response 401 ''Invalid credentials'', st, [DbSelect])
         | Inr (user # others) \<Rightarrow>
             if \<not> strict_eq (cols user ''password'') password
             then (Response 401 ''Invalid credentials'', st, [DbSelect])
             else
               (let sent = fst (sendNotificationToUser tr rt e st (cols user ''empid'')
                                  \<lparr>title = ''New Login Detected'',
                                   message = login_message rt (cols user ''email'') (clock e),
                                   url = ''/'', icon = None, image_field = None\<rparr>);
                    written = db_update e st (\<lambda>r. r\<lparr>last_login := Some (clock e)\<rparr>)
                                ''empid'' (cols user ''empid'')
                in (Response 200 ''success'', snd written, DbSelect # sent @ [DbUpdate]))))"

section \<open>Reading a trace and the store\<close>

text \<open>The transport sends of a trace: the row, the subscription and the payload of each.\<close>

fun sends :: "event list \<Rightarrow> (row \<times> json \<times> payload) list" where
  "sends [] = []"
| "sends (Send r s q # evs) = (r, s, q) # sends evs"
| "sends (ev # evs) = sends evs"

text \<open>The rows for which a trace records a call of \<open>sendNotificationToUser\<close> by the scheduler.\<close>

fun notified :: "event list \<Rightarrow> row list" where
  "notified [] = []"
| "notified (Notify r q # evs) = r # notified evs"
| "notified (ev # evs) = notified evs"

text \<open>
  The subscription list a row holds, as a list: the stored array, or the array its text
  parses to; anything else holds none.
\<close>

definition stored_subscriptions :: "runtime \<Rightarrow> row \<Rightarrow> json list" where
  "stored_subscriptions rt r =
     (case cols r ''push_subscriptions'' of
        Some (JArr ss) \<Rightarrow> ss
      | Some (JStr s) \<Rightarrow>
          (if s = [] then [] else (case json_parse rt s of Some (JArr ss) \<Rightarrow> ss | _ \<Rightarrow> []))
      | _ \<Rightarrow> [])"




section \<open>Example data\<close>

text \<open>
  A store with three employees: \<open>E1\<close>, an individual contributor with three
  subscriptions, last seen on 2024-02-10 and last updated on 2024-02-05; \<open>E2\<close>, a manager
  with the same timestamps and one subscription; \<open>E4\<close>, an individual contributor who
  never logged in, was never updated and holds no subscription. The clock of the examples
  stands at 2024-03-01T00:00:00Z on a server in UTC; one transport fails every send to the
  second subscription of \<open>E1\<close>.
\<close>

definition sub_a :: json where "sub_a = JObj [(''endpoint'', JStr ''https://push.example/a'')]"
definition sub_b :: json where "sub_b = JObj [(''endpoint'', JStr ''https://push.example/b'')]"
definition sub_c :: json where "sub_c = JObj [(''endpoint'', JStr ''https://push.example/c'')]"

definition emp_E1 :: row where
  "emp_E1 = \<lparr>cols = [''empid'' \<mapsto> JStr ''E1'', ''push_subscriptions'' \<mapsto> JArr [sub_a, sub_b, sub_c]],
             role_type = Some ''IC'', last_login = Some 1707523200000, updated_at = Some 1707091200000\<rparr>"

definition emp_E2 :: row where
  "emp_E2 = \<lparr>cols = [''empid'' \<mapsto> JStr ''E2'', ''push_subscriptions'' \<mapsto> JArr [sub_a]],
             role_type = Some ''Manager'', last_login = Some 1707523200000, updated_at = Some 1707091200000\<rparr>"

definition emp_E4 :: row where
  "emp_E4 = \<lparr>cols = [''empid'' \<mapsto> JStr ''E4''], role_type = Some ''IC'', last_login = None, updated_at = None\<rparr>"

definition st_example :: store where
  "st_example = \<lparr>rows = [emp_E1, emp_E2, emp_E4], neq_keeps_null = False\<rparr>"

definition env_example :: env where
  "env_example = \<lparr>clock = 1709251200000, local_tza = (\<lambda>t isUTC. 0),
                   select_fault = None, update_fault = None\<rparr>"

definition env_down :: env where
  "env_down = \<lparr>clock = 1709251200000, local_tza = (\<lambda>t isUTC. 0),
                select_fault = Some ''connection refused'', update_fault = None\<rparr>"

definition tr_b_fails :: transport where
  "tr_b_fails = (\<lambda>sub p. if sub = sub_b then Rejected (WebPushError (Some 500)) else Fulfilled)"

text \<open>
  A runtime for the examples. Its \<open>JSON.parse\<close> knows the two texts the examples store and
  throws on any other; its other builtins are placeholders, on which no result of an example
  depends.
\<close>

definition rt_example :: runtime where
  "rt_example =
     \<lparr>json_parse = (\<lambda>s. if s = ''[]'' then Some (JArr []) else if s = ''{}'' then Some (JObj []) else None),
      json_stringify = (\<lambda>v. ''[]''),
      to_string = (\<lambda>v. []),
      trim = (\<lambda>s. s),
      split_lines_commas = (\<lambda>s. [s]),
      login_message = (\<lambda>v t. ''Login detected'')\<rparr>"

definition notice :: payload where
  "notice = \<lparr>title = ''New Activity Available'', message = ''A new activity has been posted.'',
             url = ''/inline-activities'', icon = None, image_field = None\<rparr>"


text \<open>
  A store whose only employee, \<open>E5\<close>, has the text \<open>{}\<close> in \<open>push_subscriptions\<close>, and
  a request that registers a subscription for \<open>E5\<close>.
\<close>

definition emp_E5 :: row where
  "emp_E5 = \<lparr>cols = [''empid'' \<mapsto> JStr ''E5'', ''push_subscriptions'' \<mapsto> JStr ''{}''],
             role_type = Some ''IC'', last_login = None, updated_at = None\<rparr>"

definition st_text :: store where
  "st_text = \<lparr>rows = [emp_E5], neq_keeps_null = False\<rparr>"

definition req_E5 :: subscribe_request where
  "req_E5 = \<lparr>subscription = Some sub_a, empid = Some (JStr ''E5'')\<rparr>"


text \<open>A request that registers a subscription for \<open>E4\<close>, who holds none.\<close>

definition req_E4 :: subscribe_request where
  "req_E4 = \<lparr>subscription = Some sub_a, empid = Some (JStr ''E4'')\<rparr>"

text \<open>
  Two request bodies for \<open>updateEmployee\<close>, a store with one employee who can log in, and
  a later clock: 2024-03-16T02:30:00Z, whose cutoff is 2024-03-01T02:30:00Z.
\<close>

definition body_stars :: "string \<rightharpoonup> json" where
  "body_stars = [''stars'' \<mapsto> JNum 5]"

definition body_name :: "string \<rightharpoonup> json" where
  "body_name = [''name'' \<mapsto> JStr ''Asha'']"

definition emp_E6 :: row where
  "emp_E6 = \<lparr>cols = [''empid'' \<mapsto> JStr ''E6'', ''email'' \<mapsto> JStr ''asha@example.com'',
                     ''password'' \<mapsto> JStr ''secret''],
             role_type = Some ''IC'', last_login = None, updated_at = None\<rparr>"

definition st_login :: store where
  "st_login = \<lparr>rows = [emp_E6], neq_keeps_null = False\<rparr>"

definition env_later :: env where
  "env_later = \<lparr>clock = 1710556200000, local_tza = (\<lambda>t isUTC. 0),
                 select_fault = None, update_fault = None\<rparr>"

text \<open>
  The same later clock on a server in New York, where the clocks went forward by an hour on
  2024-03-10 at 07:00Z (02:00 local time, read as 03:00): five hours behind UTC before, four
  after. Fifteen local days before 2024-03-15T22:30 local time is 2024-02-29T22:30 local
  time, which is 2024-03-01T03:30Z. \<open>D2\<close> was last seen and last updated at
  2024-03-01T03:00Z.
\<close>

definition env_new_york :: env where
  "env_new_york =
     \<lparr>clock = 1710556200000,
      local_tza = (\<lambda>t isUTC. if isUTC then (if t < 1710054000000 then - 18000000 else - 14400000)
                             else (if t < 1710039600000 then - 18000000 else - 14400000)),
      select_fault = None, update_fault = None\<rparr>"

definition emp_D2 :: row where
  "emp_D2 = \<lparr>cols = [''empid'' \<mapsto> JStr ''D2''], role_type = Some ''IC'',
             last_login = Some 1709262000000, updated_at = Some 1709262000000\<rparr>"

definition st_dst :: store where
  "st_dst = \<lparr>rows = [emp_D2], neq_keeps_null = False\<rparr>"

section \<open>Traces, promises and the dispatcher\<close>

lemmas example_defs = sub_a_def sub_b_def sub_c_def emp_E1_def emp_E2_def emp_E4_def st_example_def
  env_example_def env_down_def tr_b_fails_def notice_def rt_example_def emp_E5_def st_text_def
  req_E5_def req_E4_def body_stars_def body_name_def emp_E6_def st_login_def env_later_def
  env_new_york_def emp_D2_def st_dst_def


lemma sends_append: "sends (xs @ ys) = sends xs @ sends ys"
  by (induction xs rule: sends.induct) simp_all

lemma notified_append: "notified (xs @ ys) = notified xs @ notified ys"
  by (induction xs rule: notified.induct) simp_all

lemma catch_log_fulfilled: "snd (catch_log f r) = Fulfilled"
  by (cases r) (simp add: catch_log_def split: settled.splits)

lemma sends_catch_log: "sends (fst (catch_log f r)) = sends (fst r)"
  by (cases r) (simp add: catch_log_def sends_append split: settled.splits)

lemma notified_catch_log: "notified (fst (catch_log f r)) = notified (fst r)"
  by (cases r) (simp add: catch_log_def notified_append split: settled.splits)

lemma promise_all_fulfilled: "(\<forall>s \<in> set ps. s = Fulfilled) \<Longrightarrow> promise_all ps = Fulfilled"
  by (induction ps rule: promise_all.induct) simp_all

subsection \<open>sendNotificationToUser\<close>

lemma send_to_subscription_fulfilled: "snd (send_to_subscription tr eid user p sub) = Fulfilled"
  by (simp add: send_to_subscription_def split: settled.splits)

lemma send_to_subscription_sends:
  "sends (fst (send_to_subscription tr eid user p sub)) = [(user, sub, p)]"
  by (simp add: send_to_subscription_def split: settled.splits)

lemma send_to_subscription_notified:
  "notified (fst (send_to_subscription tr eid user p sub)) = []"
  by (simp add: send_to_subscription_def split: settled.splits)

lemma fan_out_user_sends:
  "sends (concat (map fst (map (send_to_subscription tr eid user p) subs))) =
     map (\<lambda>sub. (user, sub, p)) subs"
  by (induction subs) (simp_all add: sends_append send_to_subscription_sends)

lemma fan_out_user_notified:
  "notified (concat (map fst (map (send_to_subscription tr eid user p) subs))) = []"
  by (induction subs) (simp_all add: notified_append send_to_subscription_notified)

lemma fan_out_user_all:
  "promise_all (map snd (map (send_to_subscription tr eid user p) subs)) = Fulfilled"
  by (rule promise_all_fulfilled) (auto simp: send_to_subscription_fulfilled)

lemma sendNotificationToUser_try_sends:
  "sends (fst (sendNotificationToUser_try tr rt e st eid p)) =
     (case single (db_select_eq e st ''empid'' eid) of
        Inl err \<Rightarrow> []
      | Inr user \<Rightarrow> map (\<lambda>sub. (user, sub, default_icons p)) (stored_subscriptions rt user))"
  by (auto simp: sendNotificationToUser_try_def stored_subscriptions_def Let_def fan_out_user_all
      fan_out_user_sends sends_append simp del: map_map
      split: sum.splits option.splits json.splits)

lemma sendNotificationToUser_sends:
  "sends (fst (sendNotificationToUser tr rt e st eid p)) =
     (case single (db_select_eq e st ''empid'' eid) of
        Inl err \<Rightarrow> []
      | Inr user \<Rightarrow> map (\<lambda>sub. (user, sub, default_icons p)) (stored_subscriptions rt user))"
  by (simp add: sendNotificationToUser_def sends_catch_log sendNotificationToUser_try_sends)

lemma sendNotificationToUser_notified:
  "notified (fst (sendNotificationToUser tr rt e st eid p)) = []"
  by (auto simp: sendNotificationToUser_def notified_catch_log sendNotificationToUser_try_def
      Let_def fan_out_user_all fan_out_user_notified notified_append simp del: map_map
      split: sum.splits option.splits json.splits)

lemma single_Inr_iff:
  "single (db_select_eq e st c v) = Inr user \<longleftrightarrow>
     select_fault e = None \<and> filter (eq_match c v) (rows st) = [user]"
  by (cases "filter (eq_match c v) (rows st)" rule: single.cases[of "Inr _", simplified])
     (auto simp: db_select_eq_def split: option.splits)

subsection \<open>broadcastNotification\<close>

lemma broadcast_to_subscription_fulfilled: "snd (broadcast_to_subscription tr emp p sub) = Fulfilled"
  by (simp add: broadcast_to_subscription_def split: settled.splits)

lemma broadcast_to_subscription_sends:
  "sends (fst (broadcast_to_subscription tr emp p sub)) = [(emp, sub, p)]"
  by (simp add: broadcast_to_subscription_def split: settled.splits)

lemma broadcast_subs_fulfilled: "snd (broadcast_subs tr emp p subs) = Fulfilled"
  by (cases subs)
     (auto simp: broadcast_subs_def Let_def broadcast_to_subscription_fulfilled
       intro!: promise_all_fulfilled)

lemma broadcast_list_sends:
  "sends (concat (map fst (map (broadcast_to_subscription tr emp p) ss))) =
     map (\<lambda>sub. (emp, sub, p)) ss"
  by (induction ss) (simp_all add: sends_append broadcast_to_subscription_sends)

lemma broadcast_subs_sends:
  "sends (fst (broadcast_subs tr emp p subs)) =
     (case subs of JArr ss \<Rightarrow> map (\<lambda>sub. (emp, sub, p)) ss | _ \<Rightarrow> [])"
  by (cases subs) (simp_all add: broadcast_subs_def Let_def broadcast_list_sends del: map_map)

lemma broadcast_to_employee_fulfilled: "snd (broadcast_to_employee tr rt p emp) = Fulfilled"
  by (simp add: broadcast_to_employee_def broadcast_subs_fulfilled
      split: option.splits json.splits)

lemma broadcast_to_employee_sends:
  "sends (fst (broadcast_to_employee tr rt p emp)) =
     map (\<lambda>sub. (emp, sub, p)) (stored_subscriptions rt emp)"
  by (auto simp: broadcast_to_employee_def stored_subscriptions_def broadcast_subs_sends
      split: option.splits json.splits)

lemma broadcast_employees_sends:
  "sends (concat (map fst (map (broadcast_to_employee tr rt p) emps))) =
     concat (map (\<lambda>emp. map (\<lambda>sub. (emp, sub, p)) (stored_subscriptions rt emp)) emps)"
  by (induction emps) (simp_all add: sends_append broadcast_to_employee_sends)

lemma broadcast_employees_all:
  "promise_all (map snd (map (broadcast_to_employee tr rt p) emps)) = Fulfilled"
  by (rule promise_all_fulfilled) (auto simp: broadcast_to_employee_fulfilled)

lemma broadcastNotification_sends:
  "sends (fst (broadcastNotification tr rt e st roleType p)) =
     (case (if roleType \<noteq> [] then db_select_role_neq e st ''Manager'' else db_select_all e st) of
        Inl err \<Rightarrow> []
      | Inr emps \<Rightarrow>
          concat (map (\<lambda>emp. map (\<lambda>sub. (emp, sub, default_icons p)) (stored_subscriptions rt emp)) emps))"
  by (simp add: broadcastNotification_def sends_catch_log broadcastNotification_try_def Let_def
      broadcast_employees_all broadcast_employees_sends sends_append del: map_map
      split: sum.splits)

subsection \<open>The scheduler\<close>

lemma inactivity_loop_notified:
  "notified (fst (inactivity_loop tr rt e st c emps n)) =
     filter (\<lambda>emp. lastLogin emp < c \<and> lastUpdate emp < c) emps"
  by (induction emps arbitrary: n)
     (simp_all add: Let_def notified_append sendNotificationToUser_notified)

lemma inactivity_loop_count:
  "snd (inactivity_loop tr rt e st c emps n) =
     n + length (filter (\<lambda>emp. lastLogin emp < c \<and> lastUpdate emp < c) emps)"
  by (induction emps arbitrary: n) (simp_all add: Let_def)

lemma own_lookup:
  assumes "emp \<in> set (rows st)" and "single (db_select_eq e st ''empid'' (cols emp ''empid'')) = Inr user"
  shows "user = emp"
proof -
  from assms(2) have f: "filter (eq_match ''empid'' (cols emp ''empid'')) (rows st) = [user]"
    by (simp add: single_Inr_iff)
  have "user \<in> set (filter (eq_match ''empid'' (cols emp ''empid'')) (rows st))"
    by (simp add: f)
  then have "eq_match ''empid'' (cols emp ''empid'') user"
    by simp
  then have "eq_match ''empid'' (cols emp ''empid'') emp"
    by (simp add: eq_match_def)
  with assms(1) have "emp \<in> set (filter (eq_match ''empid'' (cols emp ''empid'')) (rows st))"
    by simp
  with f show ?thesis by simp
qed

lemma inactivity_loop_sends:
  "set emps \<subseteq> set (rows st) \<Longrightarrow>
   (r, s, q) \<in> set (sends (fst (inactivity_loop tr rt e st c emps n))) \<Longrightarrow> r \<in> set emps"
proof (induction emps arbitrary: n)
  case Nil
  then show ?case by simp
next
  case (Cons emp emps)
  show ?case
  proof (cases "lastLogin emp < c \<and> lastUpdate emp < c")
    case False
    with Cons show ?thesis by auto
  next
    case True
    with Cons.prems(2)
    have "(r, s, q) \<in> set (sends (fst (sendNotificationToUser tr rt e st (cols emp ''empid'') reminder)))
          \<or> (r, s, q) \<in> set (sends (fst (inactivity_loop tr rt e st c emps (n + 1))))"
      by (simp add: Let_def sends_append)
    then show ?thesis
    proof
      assume a: "(r, s, q) \<in> set (sends (fst (sendNotificationToUser tr rt e st (cols emp ''empid'') reminder)))"
      then have u: "single (db_select_eq e st ''empid'' (cols emp ''empid'')) = Inr r"
        by (cases "single (db_select_eq e st ''empid'' (cols emp ''empid''))")
           (auto simp: sendNotificationToUser_sends)
      moreover from Cons.prems(1) have "emp \<in> set (rows st)" by simp
      ultimately have "r = emp" by (rule own_lookup[rotated])
      then show ?thesis by simp
    next
      assume "(r, s, q) \<in> set (sends (fst (inactivity_loop tr rt e st c emps (n + 1))))"
      with Cons.IH Cons.prems(1) show ?thesis by auto
    qed
  qed
qed

lemma fetched_not_Manager:
  "db_select_role_neq e st ''Manager'' = Inr emps \<Longrightarrow> r \<in> set emps \<Longrightarrow>
     r \<in> set (rows st) \<and> role_type r \<noteq> Some ''Manager''"
  by (auto simp: db_select_role_neq_def neq_role_match_def split: option.splits)

lemma inactivity_check_events:
  "db_select_role_neq e st ''Manager'' = Inr emps \<Longrightarrow>
   fst (inactivity_check tr rt e st) =
     [Log RunningInactivityCheck, DbSelect] @ fst (inactivity_loop tr rt e st (fifteenDaysAgo e) emps 0)
       @ [Log (InactivityCheckComplete (snd (inactivity_loop tr rt e st (fifteenDaysAgo e) emps 0)))]"
  by (simp add: inactivity_check_def inactivity_check_try_def catch_log_def Let_def)

lemma inactivity_check_fault:
  "select_fault e = Some msg \<Longrightarrow>
   inactivity_check tr rt e st =
     ([Log RunningInactivityCheck, DbSelect, Log (SchedulerError (DbError msg))], Fulfilled)"
  by (simp add: inactivity_check_def inactivity_check_try_def catch_log_def Let_def
      db_select_role_neq_def)

section \<open>The claims\<close>

text \<open>
  C6: when the employee does not exist, the lookup errors, or the employee holds no
  subscription, \<open>sendNotificationToUser\<close> does the one select and nothing else: its
  promise is fulfilled, it issues no transport send and writes no console line.
\<close>

theorem sendToUser_without_recipients:
  assumes "select_fault e \<noteq> None
           \<or> filter (eq_match ''empid'' eid) (rows st) = []
           \<or> (\<exists>user. filter (eq_match ''empid'' eid) (rows st) = [user]
                      \<and> stored_subscriptions rt user = [])"
  shows "sendNotificationToUser tr rt e st eid p = ([DbSelect], Fulfilled)
         \<and> sends (fst (sendNotificationToUser tr rt e st eid p)) = []"
proof -
  have "sendNotificationToUser_try tr rt e st eid p = ([DbSelect], Fulfilled)"
  proof (cases "single (db_select_eq e st ''empid'' eid)")
    case (Inl err)
    then show ?thesis by (simp add: sendNotificationToUser_try_def)
  next
    case (Inr user)
    then have "select_fault e = None" and "filter (eq_match ''empid'' eid) (rows st) = [user]"
      by (simp_all add: single_Inr_iff)
    with assms have "stored_subscriptions rt user = []" by auto
    with Inr show ?thesis
      by (auto simp: sendNotificationToUser_try_def stored_subscriptions_def Let_def
          split: option.splits json.splits if_splits)
  qed
  then show ?thesis by (simp add: sendNotificationToUser_def catch_log_def)
qed

theorem sendToUser_without_recipients_witness:
  "filter (eq_match ''empid'' (Some (JStr ''unknown_id''))) (rows st_example) = []
   \<and> sendNotificationToUser tr_b_fails rt_example env_example st_example
         (Some (JStr ''unknown_id'')) notice = ([DbSelect], Fulfilled)
   \<and> sends (fst (sendNotificationToUser tr_b_fails rt_example env_example st_example
                   (Some (JStr ''unknown_id'')) notice)) = []"
proof -
  have h: "filter (eq_match ''empid'' (Some (JStr ''unknown_id''))) (rows st_example) = []"
    by (simp add: example_defs eq_match_def)
  then show ?thesis
    using sendToUser_without_recipients[of env_example "Some (JStr ''unknown_id'')" st_example
        rt_example tr_b_fails notice]
    by blast
qed

text \<open>
  C5: \<open>sendNotificationToUser\<close> and \<open>broadcastNotification\<close> always complete
  (their promise is fulfilled, never rejected), and the sends they issue do not depend on
  which sends the transport fails: \<open>sendNotificationToUser\<close> issues one send for each stored
  subscription of the employee, \<open>broadcastNotification\<close> one send for each stored
  subscription of each fetched employee, the same as under the transport that never fails.
\<close>

theorem fan_out_isolated:
  "snd (sendNotificationToUser tr rt e st eid p) = Fulfilled
   \<and> snd (broadcastNotification tr rt e st roleType p) = Fulfilled
   \<and> sends (fst (sendNotificationToUser tr rt e st eid p)) =
       sends (fst (sendNotificationToUser (\<lambda>sub q. Fulfilled) rt e st eid p))
   \<and> sends (fst (broadcastNotification tr rt e st roleType p)) =
       sends (fst (broadcastNotification (\<lambda>sub q. Fulfilled) rt e st roleType p))
   \<and> (\<forall>user. single (db_select_eq e st ''empid'' eid) = Inr user \<longrightarrow>
        sends (fst (sendNotificationToUser tr rt e st eid p)) =
          map (\<lambda>sub. (user, sub, default_icons p)) (stored_subscriptions rt user))
   \<and> (\<forall>emps. (if roleType \<noteq> [] then db_select_role_neq e st ''Manager'' else db_select_all e st) = Inr emps
        \<longrightarrow> sends (fst (broadcastNotification tr rt e st roleType p)) =
              concat (map (\<lambda>emp. map (\<lambda>sub. (emp, sub, default_icons p)) (stored_subscriptions rt emp))
                        emps))
   \<and> (\<forall>emps emp sub.
          (if roleType \<noteq> [] then db_select_role_neq e st ''Manager'' else db_select_all e st) = Inr emps
          \<and> emp \<in> set emps \<and> sub \<in> set (stored_subscriptions rt emp)
        \<longrightarrow> (emp, sub, default_icons p) \<in> set (sends (fst (broadcastNotification tr rt e st roleType p))))"
proof -
  have a: "snd (sendNotificationToUser tr rt e st eid p) = Fulfilled"
    and b: "snd (broadcastNotification tr rt e st roleType p) = Fulfilled"
    by (simp_all add: sendNotificationToUser_def broadcastNotification_def catch_log_fulfilled)
  have c: "sends (fst (sendNotificationToUser tr rt e st eid p)) =
       sends (fst (sendNotificationToUser (\<lambda>sub q. Fulfilled) rt e st eid p))"
    and d: "sends (fst (broadcastNotification tr rt e st roleType p)) =
       sends (fst (broadcastNotification (\<lambda>sub q. Fulfilled) rt e st roleType p))"
    by (simp_all only: sendNotificationToUser_sends broadcastNotification_sends)
  have f: "sends (fst (sendNotificationToUser tr rt e st eid p)) =
          map (\<lambda>sub. (user, sub, default_icons p)) (stored_subscriptions rt user)"
    if "single (db_select_eq e st ''empid'' eid) = Inr user" for user
    using that by (simp add: sendNotificationToUser_sends)
  have g: "sends (fst (broadcastNotification tr rt e st roleType p)) =
              concat (map (\<lambda>emp. map (\<lambda>sub. (emp, sub, default_icons p)) (stored_subscriptions rt emp))
                        emps)"
    if "(if roleType \<noteq> [] then db_select_role_neq e st ''Manager'' else db_select_all e st) = Inr emps"
    for emps
    using that by (simp only: broadcastNotification_sends sum.case)
  have h: "(emp, sub, default_icons p) \<in> set (sends (fst (broadcastNotification tr rt e st roleType p)))"
    if "(if roleType \<noteq> [] then db_select_role_neq e st ''Manager'' else db_select_all e st) = Inr emps"
      and "emp \<in> set emps" and "sub \<in> set (stored_subscriptions rt emp)"
    for emps emp sub
    using that by (auto simp: g)
  from a b c d f g h show ?thesis by blast
qed

theorem fan_out_isolated_witness:
  "tr_b_fails sub_b (default_icons notice) = Rejected (WebPushError (Some 500))
   \<and> single (db_select_eq env_example st_example ''empid'' (Some (JStr ''E1''))) = Inr emp_E1
   \<and> sends (fst (sendNotificationToUser tr_b_fails rt_example env_example st_example
                   (Some (JStr ''E1'')) notice)) =
        [(emp_E1, sub_a, default_icons notice), (emp_E1, sub_b, default_icons notice),
         (emp_E1, sub_c, default_icons notice)]
   \<and> snd (sendNotificationToUser tr_b_fails rt_example env_example st_example
            (Some (JStr ''E1'')) notice) = Fulfilled
   \<and> db_select_all env_example st_example = Inr [emp_E1, emp_E2, emp_E4]
   \<and> sends (fst (broadcastNotification tr_b_fails rt_example env_example st_example [] notice)) =
        [(emp_E1, sub_a, default_icons notice), (emp_E1, sub_b, default_icons notice),
         (emp_E1, sub_c, default_icons notice), (emp_E2, sub_a, default_icons notice)]
   \<and> snd (broadcastNotification tr_b_fails rt_example env_example st_example [] notice) = Fulfilled
   \<and> db_select_role_neq env_example st_example ''Manager'' = Inr [emp_E1, emp_E4]
   \<and> sends (fst (broadcastNotification tr_b_fails rt_example env_example st_example ''IC'' notice)) =
        [(emp_E1, sub_a, default_icons notice), (emp_E1, sub_b, default_icons notice),
         (emp_E1, sub_c, default_icons notice)]
   \<and> snd (broadcastNotification tr_b_fails rt_example env_example st_example ''IC'' notice) = Fulfilled"
proof -
  have h: "single (db_select_eq env_example st_example ''empid'' (Some (JStr ''E1''))) = Inr emp_E1"
    by (simp add: example_defs db_select_eq_def eq_match_def)
  have s: "stored_subscriptions rt_example emp_E1 = [sub_a, sub_b, sub_c]"
    "stored_subscriptions rt_example emp_E2 = [sub_a]"
    "stored_subscriptions rt_example emp_E4 = []"
    by (simp_all add: stored_subscriptions_def emp_E1_def emp_E2_def emp_E4_def)
  have t: "tr_b_fails sub_b (default_icons notice) = Rejected (WebPushError (Some 500))"
    by (simp add: tr_b_fails_def)
  have all: "db_select_all env_example st_example = Inr [emp_E1, emp_E2, emp_E4]"
    by (simp add: db_select_all_def env_example_def st_example_def)
  have ics: "db_select_role_neq env_example st_example ''Manager'' = Inr [emp_E1, emp_E4]"
    by (simp add: example_defs db_select_role_neq_def neq_role_match_def)
  note f = fan_out_isolated[where tr = tr_b_fails and rt = rt_example and e = env_example
      and st = st_example and eid = "Some (JStr ''E1'')" and p = notice and roleType = "''IC''"]
  note f0 = fan_out_isolated[where tr = tr_b_fails and rt = rt_example and e = env_example
      and st = st_example and eid = "Some (JStr ''E1'')" and p = notice and roleType = "[]"]
  from f have a: "snd (sendNotificationToUser tr_b_fails rt_example env_example st_example
                        (Some (JStr ''E1'')) notice) = Fulfilled"
    and b: "snd (broadcastNotification tr_b_fails rt_example env_example st_example ''IC'' notice) = Fulfilled"
    by blast+
  from f0 have b0: "snd (broadcastNotification tr_b_fails rt_example env_example st_example [] notice) = Fulfilled"
    by blast
  from f h have u: "sends (fst (sendNotificationToUser tr_b_fails rt_example env_example st_example
                               (Some (JStr ''E1'')) notice)) =
      map (\<lambda>sub. (emp_E1, sub, default_icons notice)) (stored_subscriptions rt_example emp_E1)"
    by blast
  from ics have "(if ''IC'' \<noteq> [] then db_select_role_neq env_example st_example ''Manager''
                  else db_select_all env_example st_example) = Inr [emp_E1, emp_E4]"
    by simp
  with f have v: "sends (fst (broadcastNotification tr_b_fails rt_example env_example st_example ''IC'' notice)) =
      concat (map (\<lambda>emp. map (\<lambda>sub. (emp, sub, default_icons notice)) (stored_subscriptions rt_example emp))
                [emp_E1, emp_E4])"
    by blast
  from all have "(if ([]::string) \<noteq> [] then db_select_role_neq env_example st_example ''Manager''
                  else db_select_all env_example st_example) = Inr [emp_E1, emp_E2, emp_E4]"
    by simp
  with f0 have v0: "sends (fst (broadcastNotification tr_b_fails rt_example env_example st_example [] notice)) =
      concat (map (\<lambda>emp. map (\<lambda>sub. (emp, sub, default_icons notice)) (stored_subscriptions rt_example emp))
                [emp_E1, emp_E2, emp_E4])"
    by blast
  from a b b0 h t all ics u v v0 show ?thesis by (simp add: s)
qed

text \<open>
  C8: when the fetch of the employees fails, the run of the scheduler is exactly: the opening
  console line, one select, and the console line of the caught error. The callback's promise is
  fulfilled, no employee is notified, nothing is sent, no count is logged, and the store is
  asked once.
\<close>

theorem scheduler_fetch_failure:
  assumes "select_fault e = Some msg"
  shows "inactivity_check tr rt e st =
           ([Log RunningInactivityCheck, DbSelect, Log (SchedulerError (DbError msg))], Fulfilled)
         \<and> notified (fst (inactivity_check tr rt e st)) = []
         \<and> sends (fst (inactivity_check tr rt e st)) = []
         \<and> count_list (fst (inactivity_check tr rt e st)) DbSelect = 1
         \<and> (\<forall>n. Log (InactivityCheckComplete n) \<notin> set (fst (inactivity_check tr rt e st)))"
  using assms by (simp add: inactivity_check_fault)

theorem scheduler_fetch_failure_witness:
  "select_fault env_down = Some ''connection refused''
   \<and> inactivity_check tr_b_fails rt_example env_down st_example =
        ([Log RunningInactivityCheck, DbSelect, Log (SchedulerError (DbError ''connection refused''))],
         Fulfilled)"
proof -
  have h: "select_fault env_down = Some ''connection refused''"
    by (simp add: env_down_def)
  from scheduler_fetch_failure[OF h, of tr_b_fails rt_example st_example] h show ?thesis by blast
qed



text \<open>
  C3: \<open>broadcastNotification('Manager', p)\<close> issues no send for a subscription of a row
  whose \<open>role_type\<close> is \<open>Manager\<close>; the rows the inactivity scan fetches, the rows it
  notifies and the rows its notifications send to all have a \<open>role_type\<close> other than
  \<open>Manager\<close>.
\<close>

theorem managers_never_targeted:
  "(\<forall>r s q. (r, s, q) \<in> set (sends (fst (broadcastNotification tr rt e st ''Manager'' p)))
        \<longrightarrow> role_type r \<noteq> Some ''Manager'')
   \<and> (\<forall>emps. db_select_role_neq e st ''Manager'' = Inr emps
        \<longrightarrow> (\<forall>r \<in> set emps. role_type r \<noteq> Some ''Manager''))
   \<and> (\<forall>r. r \<in> set (notified (fst (inactivity_check tr rt e st)))
        \<longrightarrow> role_type r \<noteq> Some ''Manager'')
   \<and> (\<forall>r s q. (r, s, q) \<in> set (sends (fst (inactivity_check tr rt e st)))
        \<longrightarrow> role_type r \<noteq> Some ''Manager'')"
proof (intro conjI allI impI)
  fix r s q
  assume "(r, s, q) \<in> set (sends (fst (broadcastNotification tr rt e st ''Manager'' p)))"
  then obtain emps where "db_select_role_neq e st ''Manager'' = Inr emps" and "r \<in> set emps"
    by (cases "db_select_role_neq e st ''Manager''") (auto simp: broadcastNotification_sends)
  then show "role_type r \<noteq> Some ''Manager''"
    using fetched_not_Manager by blast
next
  fix emps
  assume "db_select_role_neq e st ''Manager'' = Inr emps"
  then show "\<forall>r \<in> set emps. role_type r \<noteq> Some ''Manager''"
    using fetched_not_Manager by blast
next
  fix r
  assume n: "r \<in> set (notified (fst (inactivity_check tr rt e st)))"
  show "role_type r \<noteq> Some ''Manager''"
  proof (cases "db_select_role_neq e st ''Manager''")
    case (Inl err)
    then obtain msg where "select_fault e = Some msg"
      by (auto simp: db_select_role_neq_def split: option.splits)
    with n show ?thesis by (simp add: inactivity_check_fault)
  next
    case (Inr emps)
    with n have "r \<in> set emps"
      by (simp add: inactivity_check_events notified_append inactivity_loop_notified)
    with Inr show ?thesis using fetched_not_Manager by blast
  qed
next
  fix r s q
  assume n: "(r, s, q) \<in> set (sends (fst (inactivity_check tr rt e st)))"
  show "role_type r \<noteq> Some ''Manager''"
  proof (cases "db_select_role_neq e st ''Manager''")
    case (Inl err)
    then obtain msg where "select_fault e = Some msg"
      by (auto simp: db_select_role_neq_def split: option.splits)
    with n show ?thesis by (simp add: inactivity_check_fault)
  next
    case (Inr emps)
    with n have "(r, s, q) \<in> set (sends (fst (inactivity_loop tr rt e st (fifteenDaysAgo e) emps 0)))"
      by (simp add: inactivity_check_events sends_append)
    moreover from Inr have "set emps \<subseteq> set (rows st)"
      using fetched_not_Manager by blast
    ultimately have "r \<in> set emps" by (rule inactivity_loop_sends[rotated])
    with Inr show ?thesis using fetched_not_Manager by blast
  qed
qed

theorem managers_never_targeted_witness:
  "role_type emp_E2 = Some ''Manager'' \<and> emp_E2 \<in> set (rows st_example)
   \<and> stored_subscriptions rt_example emp_E2 = [sub_a]
   \<and> (emp_E2, sub_a, default_icons notice)
        \<notin> set (sends (fst (broadcastNotification tr_b_fails rt_example env_example st_example ''Manager'' notice)))
   \<and> emp_E2 \<notin> set (notified (fst (inactivity_check tr_b_fails rt_example env_example st_example)))
   \<and> (emp_E2, sub_a, default_icons reminder)
        \<notin> set (sends (fst (inactivity_check tr_b_fails rt_example env_example st_example)))
   \<and> (emp_E1, sub_a, default_icons notice)
        \<in> set (sends (fst (broadcastNotification tr_b_fails rt_example env_example st_example ''Manager'' notice)))
   \<and> role_type emp_E1 \<noteq> Some ''Manager''"
proof -
  have r: "role_type emp_E2 = Some ''Manager''" and m: "emp_E2 \<in> set (rows st_example)"
    by (simp_all add: example_defs)
  have s: "stored_subscriptions rt_example emp_E2 = [sub_a]"
    by (simp add: stored_subscriptions_def emp_E2_def)
  note t = managers_never_targeted[of tr_b_fails rt_example env_example st_example notice]
  have f: "db_select_role_neq env_example st_example ''Manager'' = Inr [emp_E1, emp_E4]"
    by (simp add: example_defs db_select_role_neq_def neq_role_match_def)
  have "stored_subscriptions rt_example emp_E1 = [sub_a, sub_b, sub_c]"
    by (simp add: stored_subscriptions_def emp_E1_def)
  with f have i: "(emp_E1, sub_a, default_icons notice)
        \<in> set (sends (fst (broadcastNotification tr_b_fails rt_example env_example st_example ''Manager'' notice)))"
    by (simp add: broadcastNotification_sends)
  with t have "role_type emp_E1 \<noteq> Some ''Manager''" by blast
  with r m s i t show ?thesis by blast
qed

text \<open>
  C4, as stated, fails: \<open>broadcastNotification('IC', p)\<close> (the call \<open>createProject\<close>
  makes) sends to \<open>E1\<close>, whose \<open>role_type\<close> is the argument \<open>IC\<close>, and sends nothing to
  the manager \<open>E2\<close>, whose \<open>role_type\<close> differs from the argument and who holds a
  subscription.
\<close>

theorem broadcast_excludes_argument_counterexample:
  "role_type emp_E1 = Some ''IC''
   \<and> (emp_E1, sub_a, default_icons notice)
        \<in> set (sends (fst (broadcastNotification tr_b_fails rt_example env_example st_example ''IC'' notice)))
   \<and> role_type emp_E2 = Some ''Manager''
   \<and> stored_subscriptions rt_example emp_E2 = [sub_a]
   \<and> sends (fst (broadcastNotification tr_b_fails rt_example env_example st_example ''IC'' notice)) =
        [(emp_E1, sub_a, default_icons notice), (emp_E1, sub_b, default_icons notice),
         (emp_E1, sub_c, default_icons notice)]"
proof -
  have f: "db_select_role_neq env_example st_example ''Manager'' = Inr [emp_E1, emp_E4]"
    by (simp add: example_defs db_select_role_neq_def neq_role_match_def)
  have s1: "stored_subscriptions rt_example emp_E1 = [sub_a, sub_b, sub_c]"
    and s2: "stored_subscriptions rt_example emp_E2 = [sub_a]"
    and s4: "stored_subscriptions rt_example emp_E4 = []"
    by (simp_all add: stored_subscriptions_def emp_E1_def emp_E2_def emp_E4_def)
  have "sends (fst (broadcastNotification tr_b_fails rt_example env_example st_example ''IC'' notice)) =
        [(emp_E1, sub_a, default_icons notice), (emp_E1, sub_b, default_icons notice),
         (emp_E1, sub_c, default_icons notice)]"
    by (simp add: broadcastNotification_sends f s1 s4)
  moreover have "role_type emp_E1 = Some ''IC''" "role_type emp_E2 = Some ''Manager''"
    by (simp_all add: emp_E1_def emp_E2_def)
  ultimately show ?thesis using s2 by simp
qed

text \<open>
  C4, amended: the argument only switches the filter on. A row receives a send from
  \<open>broadcastNotification\<close> if and only if the fetch succeeds, the row holds at least one
  subscription and, when the argument is not empty, its \<open>role_type\<close> is not \<open>Manager\<close>
  (a row with a NULL \<open>role_type\<close> is kept or dropped as the store's \<open>neq\<close> decides). With
  an empty argument no row is filtered out.
\<close>

theorem broadcast_recipients:
  "(\<exists>s q. (r, s, q) \<in> set (sends (fst (broadcastNotification tr rt e st roleType p)))) \<longleftrightarrow>
     select_fault e = None
     \<and> r \<in> set (rows st)
     \<and> (roleType \<noteq> [] \<longrightarrow> (case role_type r of None \<Rightarrow> neq_keeps_null st | Some x \<Rightarrow> x \<noteq> ''Manager''))
     \<and> stored_subscriptions rt r \<noteq> []"
proof (cases "select_fault e")
  case (Some msg)
  then show ?thesis
    by (simp add: broadcastNotification_sends db_select_role_neq_def db_select_all_def)
next
  case None
  have m: "(\<exists>s q. (r, s, q) \<in> set (concat (map (\<lambda>emp. map (\<lambda>sub. (emp, sub, p')) (stored_subscriptions rt emp)) emps)))
     \<longleftrightarrow> r \<in> set emps \<and> stored_subscriptions rt r \<noteq> []" for emps p'
  proof -
    have "(\<exists>s q. (r, s, q) \<in> set (concat (map (\<lambda>emp. map (\<lambda>sub. (emp, sub, p')) (stored_subscriptions rt emp)) emps)))
       \<longleftrightarrow> r \<in> set emps \<and> (\<exists>s. s \<in> set (stored_subscriptions rt r))"
      by auto
    then show ?thesis by (simp add: ex_in_conv)
  qed
  define emps where
    "emps = (if roleType \<noteq> [] then filter (neq_role_match st ''Manager'') (rows st) else rows st)"
  have "sends (fst (broadcastNotification tr rt e st roleType p)) =
          concat (map (\<lambda>emp. map (\<lambda>sub. (emp, sub, default_icons p)) (stored_subscriptions rt emp)) emps)"
    by (simp add: None broadcastNotification_sends db_select_role_neq_def db_select_all_def emps_def)
  then have "(\<exists>s q. (r, s, q) \<in> set (sends (fst (broadcastNotification tr rt e st roleType p)))) \<longleftrightarrow>
          r \<in> set emps \<and> stored_subscriptions rt r \<noteq> []"
    by (simp only: m)
  also have "r \<in> set emps \<longleftrightarrow>
      r \<in> set (rows st)
      \<and> (roleType \<noteq> [] \<longrightarrow> (case role_type r of None \<Rightarrow> neq_keeps_null st | Some x \<Rightarrow> x \<noteq> ''Manager''))"
    by (auto simp: emps_def neq_role_match_def)
  finally show ?thesis using None by blast
qed

theorem broadcast_recipients_witness:
  "select_fault env_example = None \<and> emp_E1 \<in> set (rows st_example)
   \<and> role_type emp_E1 = Some ''IC'' \<and> stored_subscriptions rt_example emp_E1 \<noteq> []
   \<and> (\<exists>s q. (emp_E1, s, q)
        \<in> set (sends (fst (broadcastNotification tr_b_fails rt_example env_example st_example ''IC'' notice))))"
proof -
  have a: "select_fault env_example = None" "emp_E1 \<in> set (rows st_example)"
    "role_type emp_E1 = Some ''IC''"
    by (simp_all add: example_defs)
  have b: "stored_subscriptions rt_example emp_E1 \<noteq> []"
    by (simp add: stored_subscriptions_def emp_E1_def)
  from a b broadcast_recipients[of emp_E1 tr_b_fails rt_example env_example st_example "''IC''" notice]
  show ?thesis by simp
qed

text \<open>
  C7 fails in \<open>subscribe\<close> where the stored value is a text that parses, but not to a list:
  with \<open>{}\<close> stored and any runtime whose \<open>JSON.parse\<close> reads it as the empty object,
  \<open>subscriptions.some\<close> is not a function, the handler answers 500 and stores nothing. The
  dispatch path reads the same row as holding no subscription and completes.
\<close>

theorem subscribe_fails_on_parsed_non_list:
  "subscribe (rt\<lparr>json_parse := (json_parse rt)(''{}'' := Some (JObj []))\<rparr>) env_example st_text req_E5 =
     (Response 500 ''Failed to save subscription'', st_text, [DbSelect, Log (SubscriptionError TypeError)])
   \<and> sendNotificationToUser tr (rt\<lparr>json_parse := (json_parse rt)(''{}'' := Some (JObj []))\<rparr>)
         env_example st_text (Some (JStr ''E5'')) notice = ([DbSelect], Fulfilled)"
  by (simp add: subscribe_def subscribe_try_def subscribe_read_def db_select_eq_def eq_match_def
      sendNotificationToUser_def sendNotificationToUser_try_def catch_log_def Let_def
      st_text_def emp_E5_def req_E5_def env_example_def sub_a_def)

theorem subscribe_fails_on_parsed_non_list_witness:
  "json_parse rt_example ''{}'' = Some (JObj [])
   \<and> subscribe rt_example env_example st_text req_E5 =
     (Response 500 ''Failed to save subscription'', st_text, [DbSelect, Log (SubscriptionError TypeError)])"
proof -
  have "rt_example\<lparr>json_parse := (json_parse rt_example)(''{}'' := Some (JObj []))\<rparr> = rt_example"
    by (simp add: rt_example_def fun_eq_iff)
  with subscribe_fails_on_parsed_non_list[of rt_example tr_b_fails] show ?thesis
    by (simp add: rt_example_def)
qed

subsection \<open>subscribe\<close>






















subsection \<open>updateEmployee and loginUser\<close>

lemma updateEmployee_updated:
  assumes "updateEmployee rt e st eid body = (Response 200 ''Employee updated'', st', ev)"
  shows "body ''stars'' = None \<and> select_fault e = None \<and> update_fault e = None
         \<and> (\<exists>existing others p.
               filter (eq_match ''empid'' (Some (JStr eid))) (rows st) = existing # others
               \<and> check_availability (build_updatePayload rt body) existing = Some p
               \<and> st' = st\<lparr>rows := map (\<lambda>r. if eq_match ''empid'' (Some (JStr eid)) r
                                             then r\<lparr>cols := cols r ++ p,
                                                    updated_at := Some (clock e + istOffset)\<rparr>
                                             else r) (rows st)\<rparr>)"
  using assms
  by (auto simp: updateEmployee_def db_select_eq_def db_update_def Let_def
      split: option.splits sum.splits list.splits prod.splits exn.splits if_splits)

lemma updateEmployee_rows:
  assumes "updateEmployee rt e st eid body = (Response 200 ''Employee updated'', st', ev)"
  shows "length (rows st') = length (rows st)
         \<and> (\<exists>i < length (rows st). eq_match ''empid'' (Some (JStr eid)) (rows st ! i))
         \<and> (\<forall>i < length (rows st). eq_match ''empid'' (Some (JStr eid)) (rows st ! i) \<longrightarrow>
               updated_at (rows st' ! i) = Some (clock e + 19800000))"
proof -
  from updateEmployee_updated[OF assms] obtain existing others p where
    f: "filter (eq_match ''empid'' (Some (JStr eid))) (rows st) = existing # others"
    and st': "st' = st\<lparr>rows := map (\<lambda>r. if eq_match ''empid'' (Some (JStr eid)) r
                                             then r\<lparr>cols := cols r ++ p,
                                                    updated_at := Some (clock e + istOffset)\<rparr>
                                             else r) (rows st)\<rparr>"
    by blast
  have "existing \<in> set (filter (eq_match ''empid'' (Some (JStr eid))) (rows st))"
    by (simp add: f)
  then have "existing \<in> set (rows st)" and "eq_match ''empid'' (Some (JStr eid)) existing"
    by simp_all
  then have "\<exists>i < length (rows st). eq_match ''empid'' (Some (JStr eid)) (rows st ! i)"
    by (metis in_set_conv_nth)
  then show ?thesis by (simp add: st' istOffset_def)
qed

lemma loginUser_success:
  assumes "loginUser tr rt e st email password = (Response 200 ''success'', st', ev)"
  shows "\<exists>user others.
           filter (eq_match ''email'' email) (rows st) = user # others
           \<and> strict_eq (cols user ''password'') password
           \<and> DbUpdate \<in> set ev
           \<and> st' = snd (db_update e st (\<lambda>r. r\<lparr>last_login := Some (clock e)\<rparr>) ''empid'' (cols user ''empid''))"
  using assms
  by (auto simp: loginUser_def db_select_eq_def Let_def
      split: option.splits sum.splits list.splits if_splits)

lemma updateEmployeeStars_updated_at:
  "map updated_at (rows (fst (snd (updateEmployeeStars e st eid body)))) = map updated_at (rows st)"
  by (auto simp: updateEmployeeStars_def db_update_def split: option.splits)

lemma login_example:
  "loginUser tr_b_fails rt_example env_example st_login (Some (JStr ''asha@example.com'')) (Some (JStr ''secret'')) =
     (Response 200 ''success'',
      snd (db_update env_example st_login (\<lambda>r. r\<lparr>last_login := Some (clock env_example)\<rparr>) ''empid'' (Some (JStr ''E6''))),
      DbSelect # fst (sendNotificationToUser tr_b_fails rt_example env_example st_login (Some (JStr ''E6''))
                        \<lparr>title = ''New Login Detected'',
                         message = login_message rt_example (Some (JStr ''asha@example.com'')) (clock env_example),
                         url = ''/'', icon = None, image_field = None\<rparr>) @ [DbUpdate])"
  by (simp add: loginUser_def db_select_eq_def eq_match_def st_login_def emp_E6_def env_example_def Let_def)

lemma update_example:
  "fst (updateEmployee rt_example env_example st_example ''E1'' body_name) = Response 200 ''Employee updated''"
  by (simp add: updateEmployee_def db_select_eq_def db_update_def eq_match_def Let_def
      build_updatePayload_def copy_fields_def set_list_field_def profileFields_def detailScalarFields_def
      check_availability_def or_existing_def
      body_name_def st_example_def emp_E1_def emp_E2_def emp_E4_def env_example_def)

text \<open>
  C9, as stated, fails on a stars-only update: \<open>updateEmployee\<close> with the body
  \<open>{stars: 5}\<close> answers 200, writes the stars of \<open>E1\<close> and leaves every \<open>updated_at\<close>
  as it was, and so does \<open>updateEmployeeStars\<close>.
\<close>

theorem stars_update_keeps_updated_at_counterexample:
  "fst (updateEmployee rt_example env_example st_example ''E1'' body_stars) =
     Response 200 ''Star updated directly''
   \<and> map (\<lambda>r. cols r ''stars'') (rows (fst (snd (updateEmployee rt_example env_example st_example ''E1'' body_stars)))) =
       [Some (JNum 5), None, None]
   \<and> map updated_at (rows (fst (snd (updateEmployee rt_example env_example st_example ''E1'' body_stars)))) =
       map updated_at (rows st_example)
   \<and> fst (updateEmployeeStars env_example st_example ''E1'' body_stars) =
       Response 200 ''Stars updated successfully''
   \<and> map (\<lambda>r. cols r ''stars'') (rows (fst (snd (updateEmployeeStars env_example st_example ''E1'' body_stars)))) =
       [Some (JNum 5), None, None]
   \<and> map updated_at (rows (fst (snd (updateEmployeeStars env_example st_example ''E1'' body_stars)))) =
       map updated_at (rows st_example)
   \<and> map updated_at (rows st_example) = [Some 1707091200000, Some 1707091200000, None]
   \<and> clock env_example = 1709251200000"
  by (simp add: updateEmployee_def updateEmployeeStars_def db_select_eq_def db_update_def
      eq_match_def body_stars_def st_example_def emp_E1_def emp_E2_def emp_E4_def env_example_def)

text \<open>
  C9, amended: a login that succeeds issues the write of \<open>last_login\<close> for the rows that
  have the authenticated employee's \<open>empid\<close>, and the store then holds the current instant
  there when it accepts the write (the handler does not look at the write's result); an
  \<open>updateEmployee\<close> that answers \<open>Employee updated\<close> had no \<open>stars\<close> in its body and has
  written \<open>updated_at\<close> for the rows of that employee; \<open>updateEmployeeStars\<close> writes no
  \<open>updated_at\<close>.
\<close>

theorem timestamps_written:
  "(loginUser tr rt e st email password = (Response 200 ''success'', st1, ev1)
      \<longrightarrow> DbUpdate \<in> set ev1
          \<and> (\<exists>user others.
                filter (eq_match ''email'' email) (rows st) = user # others
                \<and> strict_eq (cols user ''password'') password
                \<and> length (rows st1) = length (rows st)
                \<and> (update_fault e = None \<longrightarrow>
                      (\<forall>i < length (rows st). eq_match ''empid'' (cols user ''empid'') (rows st ! i)
                         \<longrightarrow> last_login (rows st1 ! i) = Some (clock e)))))
   \<and> (updateEmployee rt e st eid body = (Response 200 ''Employee updated'', st2, ev2)
      \<longrightarrow> body ''stars'' = None
          \<and> length (rows st2) = length (rows st)
          \<and> (\<exists>i < length (rows st). eq_match ''empid'' (Some (JStr eid)) (rows st ! i))
          \<and> (\<forall>i < length (rows st). eq_match ''empid'' (Some (JStr eid)) (rows st ! i)
                \<longrightarrow> updated_at (rows st2 ! i) = Some (clock e + 19800000)))
   \<and> map updated_at (rows (fst (snd (updateEmployeeStars e st eid body)))) = map updated_at (rows st)"
proof (intro conjI impI)
  assume a: "loginUser tr rt e st email password = (Response 200 ''success'', st1, ev1)"
  then obtain user others where
    f: "filter (eq_match ''email'' email) (rows st) = user # others"
    and p: "strict_eq (cols user ''password'') password"
    and w: "DbUpdate \<in> set ev1"
    and st1: "st1 = snd (db_update e st (\<lambda>r. r\<lparr>last_login := Some (clock e)\<rparr>) ''empid'' (cols user ''empid''))"
    using loginUser_success by blast
  from w show "DbUpdate \<in> set ev1" .
  from st1 have "length (rows st1) = length (rows st)
      \<and> (update_fault e = None \<longrightarrow>
            (\<forall>i < length (rows st). eq_match ''empid'' (cols user ''empid'') (rows st ! i)
               \<longrightarrow> last_login (rows st1 ! i) = Some (clock e)))"
    by (simp add: db_update_def split: option.splits)
  with f p show "\<exists>user others.
                filter (eq_match ''email'' email) (rows st) = user # others
                \<and> strict_eq (cols user ''password'') password
                \<and> length (rows st1) = length (rows st)
                \<and> (update_fault e = None \<longrightarrow>
                      (\<forall>i < length (rows st). eq_match ''empid'' (cols user ''empid'') (rows st ! i)
                         \<longrightarrow> last_login (rows st1 ! i) = Some (clock e)))"
    by (intro exI[of _ user] exI[of _ others]) simp
next
  assume u: "updateEmployee rt e st eid body = (Response 200 ''Employee updated'', st2, ev2)"
  from updateEmployee_updated[OF u] show "body ''stars'' = None" by blast
  from updateEmployee_rows[OF u] show "length (rows st2) = length (rows st)"
    and "\<exists>i < length (rows st). eq_match ''empid'' (Some (JStr eid)) (rows st ! i)"
    and "\<forall>i < length (rows st). eq_match ''empid'' (Some (JStr eid)) (rows st ! i)
                \<longrightarrow> updated_at (rows st2 ! i) = Some (clock e + 19800000)"
    by blast+
next
  show "map updated_at (rows (fst (snd (updateEmployeeStars e st eid body)))) = map updated_at (rows st)"
    by (rule updateEmployeeStars_updated_at)
qed

theorem timestamps_written_witness:
  "fst (loginUser tr_b_fails rt_example env_example st_login (Some (JStr ''asha@example.com'')) (Some (JStr ''secret''))) =
     Response 200 ''success''
   \<and> update_fault env_example = None
   \<and> last_login (rows st_login ! 0) = None
   \<and> last_login (rows (fst (snd (loginUser tr_b_fails rt_example env_example st_login
         (Some (JStr ''asha@example.com'')) (Some (JStr ''secret''))))) ! 0) = Some 1709251200000
   \<and> fst (updateEmployee rt_example env_example st_example ''E1'' body_name) = Response 200 ''Employee updated''
   \<and> updated_at (rows (fst (snd (updateEmployee rt_example env_example st_example ''E1'' body_name))) ! 0) =
       Some 1709271000000"
proof -
  define l where "l = loginUser tr_b_fails rt_example env_example st_login
                        (Some (JStr ''asha@example.com'')) (Some (JStr ''secret''))"
  define w where "w = updateEmployee rt_example env_example st_example ''E1'' body_name"
  have l1: "fst l = Response 200 ''success''"
    by (simp add: l_def login_example)
  then have l2: "loginUser tr_b_fails rt_example env_example st_login
                   (Some (JStr ''asha@example.com'')) (Some (JStr ''secret'')) =
                 (Response 200 ''success'', fst (snd l), snd (snd l))"
    by (simp add: l_def[symmetric] l1[symmetric])
  have w1: "fst w = Response 200 ''Employee updated''"
    by (simp add: w_def update_example)
  then have w2: "updateEmployee rt_example env_example st_example ''E1'' body_name =
                 (Response 200 ''Employee updated'', fst (snd w), snd (snd w))"
    by (simp add: w_def[symmetric] w1[symmetric])
  have u: "update_fault env_example = None" and c: "clock env_example = 1709251200000"
    by (simp_all add: env_example_def)
  have f: "filter (eq_match ''email'' (Some (JStr ''asha@example.com''))) (rows st_login) = [emp_E6]"
    and g: "eq_match ''empid'' (cols emp_E6 ''empid'') (rows st_login ! 0)"
    and n: "last_login (rows st_login ! 0) = None" "length (rows st_login) = 1"
    by (simp_all add: st_login_def emp_E6_def eq_match_def)
  have h: "eq_match ''empid'' (Some (JStr ''E1'')) (rows st_example ! 0)" "0 < length (rows st_example)"
    by (simp_all add: st_example_def emp_E1_def eq_match_def)
  note t = timestamps_written[where tr = tr_b_fails and rt = rt_example and e = env_example
      and st = st_login and email = "Some (JStr ''asha@example.com'')" and password = "Some (JStr ''secret'')"
      and ?st1.0 = "fst (snd l)" and ?ev1.0 = "snd (snd l)"]
  from t l2 u f g n have a: "last_login (rows (fst (snd l)) ! 0) = Some (clock env_example)"
    by auto
  note t' = timestamps_written[where rt = rt_example and e = env_example
      and st = st_example and eid = "''E1''" and body = body_name
      and ?st2.0 = "fst (snd w)" and ?ev2.0 = "snd (snd w)"]
  from t' w2 h have b: "updated_at (rows (fst (snd w)) ! 0) = Some (clock env_example + 19800000)"
    by blast
  from l1 u n a w1 b c show ?thesis
    by (simp add: l_def w_def)
qed

text \<open>
  C10: an \<open>updateEmployee\<close> that answers \<open>Employee updated\<close> at the instant \<open>t\<close> stores
  \<open>updated_at = t + 19,800,000 ms\<close> (five and a half hours ahead). Whatever the cutoff of a
  later scan is, the scan therefore finds the update stale only when \<open>t\<close> lies more than five
  and a half hours before that cutoff, and it notifies the updated employee, once fetched, if
  and only if \<open>lastLogin\<close> is below the cutoff and \<open>t + 19,800,000\<close> is.
\<close>

theorem updated_at_shifted:
  assumes "updateEmployee rt e st eid body = (Response 200 ''Employee updated'', st', ev)"
  shows "length (rows st') = length (rows st)
         \<and> (\<exists>i < length (rows st). eq_match ''empid'' (Some (JStr eid)) (rows st ! i))
         \<and> (\<forall>i < length (rows st). eq_match ''empid'' (Some (JStr eid)) (rows st ! i) \<longrightarrow>
               updated_at (rows st' ! i) = Some (clock e + 19800000)
               \<and> (\<forall>e'. lastUpdate (rows st' ! i) < fifteenDaysAgo e'
                          \<longleftrightarrow> clock e < fifteenDaysAgo e' - 19800000)
               \<and> (\<forall>tr rt' e' emps.
                     db_select_role_neq e' st' ''Manager'' = Inr emps \<and> rows st' ! i \<in> set emps \<longrightarrow>
                       (rows st' ! i \<in> set (notified (fst (inactivity_check tr rt' e' st')))
                          \<longleftrightarrow> lastLogin (rows st' ! i) < fifteenDaysAgo e'
                              \<and> clock e + 19800000 < fifteenDaysAgo e')))"
proof -
  note r = updateEmployee_rows[OF assms]
  have "updated_at (rows st' ! i) = Some (clock e + 19800000)
        \<and> (\<forall>e'. lastUpdate (rows st' ! i) < fifteenDaysAgo e'
                   \<longleftrightarrow> clock e < fifteenDaysAgo e' - 19800000)
        \<and> (\<forall>tr rt' e' emps.
              db_select_role_neq e' st' ''Manager'' = Inr emps \<and> rows st' ! i \<in> set emps \<longrightarrow>
                (rows st' ! i \<in> set (notified (fst (inactivity_check tr rt' e' st')))
                   \<longleftrightarrow> lastLogin (rows st' ! i) < fifteenDaysAgo e'
                       \<and> clock e + 19800000 < fifteenDaysAgo e'))"
    if i: "i < length (rows st)" and m: "eq_match ''empid'' (Some (JStr eid)) (rows st ! i)" for i
  proof -
    from r i m have u: "updated_at (rows st' ! i) = Some (clock e + 19800000)" by blast
    then have l: "lastUpdate (rows st' ! i) = clock e + 19800000"
      by (simp add: lastUpdate_def)
    have "rows st' ! i \<in> set (notified (fst (inactivity_check tr rt' e' st')))
            \<longleftrightarrow> lastLogin (rows st' ! i) < fifteenDaysAgo e'
                \<and> clock e + 19800000 < fifteenDaysAgo e'"
      if "db_select_role_neq e' st' ''Manager'' = Inr emps" and "rows st' ! i \<in> set emps"
      for tr rt' e' emps
      using that l
      by (simp add: inactivity_check_events notified_append inactivity_loop_notified)
    with u l show ?thesis by auto
  qed
  with r show ?thesis by blast
qed

theorem updated_at_shifted_witness:
  "fst (updateEmployee rt_example env_example st_example ''E1'' body_name) = Response 200 ''Employee updated''
   \<and> eq_match ''empid'' (Some (JStr ''E1'')) (rows st_example ! 0)
   \<and> clock env_example = 1709251200000
   \<and> updated_at (rows (fst (snd (updateEmployee rt_example env_example st_example ''E1'' body_name))) ! 0) =
       Some 1709271000000
   \<and> fifteenDaysAgo env_later = 1709260200000
   \<and> \<not> lastUpdate (rows (fst (snd (updateEmployee rt_example env_example st_example ''E1'' body_name))) ! 0)
         < fifteenDaysAgo env_later
   \<and> fifteenDaysAgo env_new_york = 1709263800000
   \<and> \<not> lastUpdate (rows (fst (snd (updateEmployee rt_example env_example st_example ''E1'' body_name))) ! 0)
         < fifteenDaysAgo env_new_york"
proof -
  define w where "w = updateEmployee rt_example env_example st_example ''E1'' body_name"
  have w1: "fst w = Response 200 ''Employee updated''"
    by (simp add: w_def update_example)
  then have w2: "updateEmployee rt_example env_example st_example ''E1'' body_name =
                 (Response 200 ''Employee updated'', fst (snd w), snd (snd w))"
    by (simp add: w_def[symmetric] w1[symmetric])
  have c: "clock env_example = 1709251200000" "fifteenDaysAgo env_later = 1709260200000"
    "fifteenDaysAgo env_new_york = 1709263800000"
    by (simp_all add: env_example_def env_later_def env_new_york_def fifteenDaysAgo_def Let_def)
  have h: "eq_match ''empid'' (Some (JStr ''E1'')) (rows st_example ! 0)" "0 < length (rows st_example)"
    by (simp_all add: st_example_def emp_E1_def eq_match_def)
  from updated_at_shifted[OF w2] h
  have "updated_at (rows (fst (snd w)) ! 0) = Some (clock env_example + 19800000)"
    and "lastUpdate (rows (fst (snd w)) ! 0) < fifteenDaysAgo env_later
           \<longleftrightarrow> clock env_example < fifteenDaysAgo env_later - 19800000"
    and "lastUpdate (rows (fst (snd w)) ! 0) < fifteenDaysAgo env_new_york
           \<longleftrightarrow> clock env_example < fifteenDaysAgo env_new_york - 19800000"
    by blast+
  with w1 h c show ?thesis by (simp add: w_def)
qed

end
